theory Spec2Isabelle
  imports Complex_Main
begin

section \<open>Python values used by the comparison engine\<close>

text \<open>
  A Python \<open>str\<close> is a sequence of Unicode code points, so it is modelled as a list of
  natural numbers: slicing (\<open>s[:3]\<close>) and \<open>len\<close> count code points, not bytes.
  Literals of the source are written \<open>py ''...''\<close>; the rupee sign of the price strings
  is the code point 8377.
\<close>

type_synonym pystr = "nat list"

definition py :: "string \<Rightarrow> pystr" where
  "py s = map of_char s"

definition rupee :: nat where
  "rupee = 8377"

text \<open>
  \<open>str.lower()\<close> is a builtin of Python. On a string of ASCII code points it moves the
  letters A..Z to a..z and leaves every other code point as it is. On a string that
  holds a code point outside ASCII its result comes from the Unicode case tables, which
  are not part of the repository (they also change the length, and the result for a
  capital sigma depends on its neighbours): that result is the parameter
  \<open>unicode_lower\<close>, about which nothing is assumed.
\<close>

definition is_ascii :: "nat \<Rightarrow> bool" where
  "is_ascii c = (c < 128)"

definition lower_cp :: "nat \<Rightarrow> nat" where
  "lower_cp c = (if 65 \<le> c \<and> c \<le> 90 then c + 32 else c)"

definition unicode_lower :: "pystr \<Rightarrow> pystr" where
  "unicode_lower = undefined"

definition lower :: "pystr \<Rightarrow> pystr" where
  "lower s = (if list_all is_ascii s then map lower_cp s else unicode_lower s)"

text \<open>\<open>s.replace(' ', '')\<close>: every space (code point 32) is removed.\<close>

definition replace_space :: "pystr \<Rightarrow> pystr" where
  "replace_space s = filter (\<lambda>c. c \<noteq> 32) s"

text \<open>
  \<open>s.split(',')\<close>: the pieces between the commas (code point 44), in order. The result
  has one more element than \<open>s\<close> has commas; the empty string gives \<open>['']\<close>.
\<close>

fun split_comma :: "pystr \<Rightarrow> pystr list" where
  "split_comma [] = [[]]"
| "split_comma (c # cs) =
     (if c = 44 then [] # split_comma cs
      else (case split_comma cs of
              [] \<Rightarrow> [[c]]
            | t # ts \<Rightarrow> (c # t) # ts))"

text \<open>\<open>sub in s\<close> for strings: \<open>sub\<close> occurs in \<open>s\<close> as a contiguous substring.\<close>

fun startswith :: "pystr \<Rightarrow> pystr \<Rightarrow> bool" where
  "startswith s [] = True"
| "startswith [] (c # cs) = False"
| "startswith (d # ds) (c # cs) = (d = c \<and> startswith ds cs)"

fun contains :: "pystr \<Rightarrow> pystr \<Rightarrow> bool" where
  "contains [] sub = (sub = [])"
| "contains (d # ds) sub = (startswith (d # ds) sub \<or> contains ds sub)"

text \<open>\<open>''.join(c for c in s if c in '0123456789')\<close>: the ASCII digits of \<open>s\<close>, in order.\<close>

definition is_digit :: "nat \<Rightarrow> bool" where
  "is_digit c = (48 \<le> c \<and> c \<le> 57)"

definition digits_of :: "pystr \<Rightarrow> pystr" where
  "digits_of s = filter is_digit s"

text \<open>
  Errors are values. \<open>KeyError k\<close> is the failed lookup \<open>d[k]\<close>, \<open>ValueError\<close> is what
  \<open>int('')\<close> raises, \<open>AttributeError\<close> is a string method called on an integer.
\<close>

datatype error = KeyError string | ValueError | AttributeError

definition bind :: "error + 'a \<Rightarrow> ('a \<Rightarrow> error + 'b) \<Rightarrow> error + 'b" where
  "bind m f = (case m of Inl e \<Rightarrow> Inl e | Inr x \<Rightarrow> f x)"

text \<open>
  \<open>int(ds)\<close> on a string of ASCII digits (the only strings the source passes to it):
  the base-10 value. It raises \<open>ValueError\<close> on the empty string, and also on a string of
  more than 4300 digits (the default \<open>sys.int_max_str_digits\<close> of CPython 3.11 and
  later). Below that limit Python integers are unbounded.
\<close>

definition int_max_str_digits :: nat where
  "int_max_str_digits = 4300"

definition digit_value :: "nat \<Rightarrow> int" where
  "digit_value c = int c - 48"

definition int_of_digits :: "pystr \<Rightarrow> int" where
  "int_of_digits ds = foldl (\<lambda>n c. 10 * n + digit_value c) 0 ds"

definition py_int :: "pystr \<Rightarrow> error + int" where
  "py_int ds = (if ds = [] \<or> length ds > int_max_str_digits then Inl ValueError
                else Inr (int_of_digits ds))"

text \<open>\<open>str(n)\<close> for an integer, as an f-string renders it.\<close>

fun str_nat :: "nat \<Rightarrow> pystr" where
  "str_nat n = (if n < 10 then [48 + n] else str_nat (n div 10) @ [48 + n mod 10])"

definition str_int :: "int \<Rightarrow> pystr" where
  "str_int i = (if i < 0 then 45 # str_nat (nat (- i)) else str_nat (nat i))"

section \<open>comparison\_logic.py\<close>

text \<open>A product is a dictionary from field names to strings.\<close>

type_synonym product = "string \<rightharpoonup> pystr"

definition getitem :: "(string \<rightharpoonup> 'v) \<Rightarrow> string \<Rightarrow> error + 'v" where
  "getitem d k = (case d k of None \<Rightarrow> Inl (KeyError k) | Some v \<Rightarrow> Inr v)"

definition extract_price :: "pystr \<Rightarrow> error + int" where
  "extract_price price_str =
     (let digits = digits_of price_str
      in if digits \<noteq> [] then py_int digits else Inr 0)"

text \<open>The token set \<open>set(s.lower().replace(' ', '').split(','))\<close> of both analyzers.\<close>

definition tokens :: "pystr \<Rightarrow> pystr set" where
  "tokens s = set (split_comma (replace_space (lower s)))"

definition analyze_skin_type_overlap :: "pystr \<Rightarrow> pystr \<Rightarrow> pystr" where
  "analyze_skin_type_overlap skin_type_a skin_type_b =
     (let types_a = tokens skin_type_a;
          types_b = tokens skin_type_b;
          overlap = types_a \<inter> types_b
      in if contains (lower skin_type_b) (py ''all'') \<or> contains (lower skin_type_a) (py ''all'')
         then py ''One product suits all skin types''
         else if card overlap = 0 then py ''Different target skin types''
         else if card overlap = card types_a \<and> card overlap = card types_b
         then py ''Identical skin type targeting''
         else py ''Partial overlap in skin types'')"

text \<open>
  \<open>len(overlap) / len(total)\<close> is a float in the source, the correctly rounded quotient
  of two integers, compared with the literals 0.7 and 0.3 (the doubles nearest to 7/10
  and 3/10). Rounding is monotone, and a quotient \<open>p/q\<close> different from 7/10 (or 3/10) is
  at least \<open>1/(10q)\<close> away from it, so for token sets of fewer than \<open>2^49\<close> elements the
  float comparison and the exact one agree. The model computes with rationals.
\<close>

definition similarity :: "pystr set \<Rightarrow> pystr set \<Rightarrow> rat" where
  "similarity ing_a ing_b = of_nat (card (ing_a \<inter> ing_b)) / of_nat (card (ing_a \<union> ing_b))"

definition calculate_ingredient_overlap :: "pystr \<Rightarrow> pystr \<Rightarrow> pystr" where
  "calculate_ingredient_overlap ingredients_a ingredients_b =
     (let ing_a = tokens ingredients_a;
          ing_b = tokens ingredients_b;
          total = ing_a \<union> ing_b
      in if card total = 0 then py ''Unknown''
         else if similarity ing_a ing_b > 7 / 10 then py ''High similarity''
         else if similarity ing_a ing_b > 3 / 10 then py ''Medium similarity''
         else py ''Different formulations'')"

definition determine_versatility :: "pystr \<Rightarrow> pystr \<Rightarrow> pystr" where
  "determine_versatility skin_type_a skin_type_b =
     (if contains (lower skin_type_b) (py ''all'') then py ''product_b''
      else if contains (lower skin_type_a) (py ''all'') then py ''product_a''
      else (let count_a = length (split_comma skin_type_a);
                count_b = length (split_comma skin_type_b)
            in if count_a > count_b then py ''product_a'' else py ''product_b''))"

text \<open>
  The concentration of a product as both callers read it:
  \<open>int(''.join(c for c in product['concentration'][:3] if c in '0123456789'))\<close>.
  It raises \<open>KeyError\<close> when the field is absent and \<open>ValueError\<close> when the first three
  characters hold no digit.
\<close>

definition concentration :: "product \<Rightarrow> error + int" where
  "concentration product =
     bind (getitem product ''concentration'') (\<lambda>s. py_int (digits_of (take 3 s)))"

text \<open>
  The \<open>try\<close> block of \<open>compare_products\<close>: any exception in either extraction sets both
  values to 0 (the \<open>except\<close> clause is bare).
\<close>

definition concentrations :: "product \<Rightarrow> product \<Rightarrow> int \<times> int" where
  "concentrations product_a product_b =
     (case bind (concentration product_a) (\<lambda>conc_a.
           bind (concentration product_b) (\<lambda>conc_b. Inr (conc_a, conc_b))) of
        Inl e \<Rightarrow> (0, 0)
      | Inr p \<Rightarrow> p)"

text \<open>
  The comparison is a dictionary whose values are integers or strings. The lookups of
  \<open>compare_products\<close> happen in the order of the source, so the first absent field is the
  one whose \<open>KeyError\<close> is raised.
\<close>

datatype pyval = IntV int | StrV pystr

type_synonym comparison = "string \<rightharpoonup> pyval"

definition compare_products :: "product \<Rightarrow> product \<Rightarrow> error + comparison" where
  "compare_products product_a product_b =
     bind (getitem product_a ''price'') (\<lambda>price_str_a.
     bind (extract_price price_str_a) (\<lambda>price_a.
     bind (getitem product_b ''price'') (\<lambda>price_str_b.
     bind (extract_price price_str_b) (\<lambda>price_b.
     (case concentrations product_a product_b of (conc_a, conc_b) \<Rightarrow>
     bind (getitem product_a ''name'') (\<lambda>name_a.
     bind (getitem product_b ''name'') (\<lambda>name_b.
     bind (getitem product_a ''skin_type'') (\<lambda>skin_type_a.
     bind (getitem product_b ''skin_type'') (\<lambda>skin_type_b.
     bind (getitem product_a ''key_ingredients'') (\<lambda>ingredients_a.
     bind (getitem product_b ''key_ingredients'') (\<lambda>ingredients_b.
     Inr (map_of
       [(''product_a_name'', StrV name_a),
        (''product_b_name'', StrV name_b),
        (''price_a'', IntV price_a),
        (''price_b'', IntV price_b),
        (''price_diff'', IntV (abs (price_a - price_b))),
        (''cheaper_product'', StrV (if price_a < price_b then name_a else name_b)),
        (''better_price'',
           StrV (if price_a < price_b then py ''product_a'' else py ''product_b'')),
        (''concentration_a'', IntV conc_a),
        (''concentration_b'', IntV conc_b),
        (''concentration_diff'', StrV (str_int (abs (conc_a - conc_b)) @ py ''%'')),
        (''higher_concentration'', StrV (if conc_a > conc_b then name_a else name_b)),
        (''skin_type_a'', StrV skin_type_a),
        (''skin_type_b'', StrV skin_type_b),
        (''skin_type_match'', StrV (analyze_skin_type_overlap skin_type_a skin_type_b)),
        (''ingredients_a'', StrV ingredients_a),
        (''ingredients_b'', StrV ingredients_b),
        (''ingredient_similarity'',
           StrV (calculate_ingredient_overlap ingredients_a ingredients_b)),
        (''more_versatile'',
           StrV (determine_versatility skin_type_a skin_type_b))]))))))))))))"

text \<open>An f-string field \<open>{v}\<close> renders an integer in decimal and a string as it is.\<close>

definition fmt :: "pyval \<Rightarrow> pystr" where
  "fmt v = (case v of IntV i \<Rightarrow> str_int i | StrV s \<Rightarrow> s)"

text \<open>\<open>v.lower()\<close> on a dictionary value: an integer has no such method.\<close>

definition lower_val :: "pyval \<Rightarrow> error + pystr" where
  "lower_val v = (case v of IntV i \<Rightarrow> Inl AttributeError | StrV s \<Rightarrow> Inr (lower s))"

definition generate_comparison_analysis ::
  "product \<Rightarrow> product \<Rightarrow> comparison \<Rightarrow> error + pystr" where
  "generate_comparison_analysis product_a product_b comparison =
     bind (getitem product_a ''name'') (\<lambda>name_a.
     bind (getitem product_b ''name'') (\<lambda>name_b.
     bind (getitem product_a ''concentration'') (\<lambda>concentration_a.
     bind (getitem product_a ''skin_type'') (\<lambda>skin_type_a.
     bind (getitem product_b ''concentration'') (\<lambda>concentration_b.
     bind (getitem product_b ''skin_type'') (\<lambda>skin_type_b.
     let para1 = py ''Both '' @ name_a @ py '' and '' @ name_b
           @ py '' are skincare serums designed to improve skin health and appearance. ''
           @ name_a @ py '' features '' @ concentration_a @ py '' and is formulated for ''
           @ skin_type_a @ py '' skin, while '' @ name_b @ py '' contains '' @ concentration_b
           @ py '' and targets '' @ skin_type_b
           @ py '' skin. These products serve different needs in a comprehensive skincare routine.''
     in
     bind (getitem comparison ''cheaper_product'') (\<lambda>cheaper_product.
     bind (getitem comparison ''better_price'') (\<lambda>better_price.
     bind (if better_price = StrV (py ''product_a'') then getitem comparison ''price_a''
           else getitem comparison ''price_b'') (\<lambda>price.
     let price_comparison = fmt cheaper_product @ py '' is more affordable at '' @ [rupee] @ fmt price
     in
     bind (getitem comparison ''concentration_a'') (\<lambda>conc_a.
     bind (getitem comparison ''concentration_b'') (\<lambda>conc_b.
     bind (if conc_a \<noteq> conc_b
           then bind (getitem comparison ''higher_concentration'')
                  (\<lambda>higher. Inr (fmt higher @ py '' has a higher concentration''))
           else Inr (py ''Both have similar concentrations'')) (\<lambda>conc_comparison.
     bind (getitem comparison ''ingredient_similarity'') (\<lambda>ingredient_similarity.
     bind (lower_val ingredient_similarity) (\<lambda>similarity_lower.
     let ingredient_note = py ''The formulations show '' @ similarity_lower
     in
     bind (getitem product_a ''key_ingredients'') (\<lambda>ingredients_a.
     bind (getitem product_b ''key_ingredients'') (\<lambda>ingredients_b.
     let para2 = py ''Key differences include formulation and targeting. '' @ conc_comparison
           @ py '', which may indicate different potency levels. '' @ ingredient_note
           @ py '', with '' @ name_a @ py '' focusing on '' @ ingredients_a @ py '' and ''
           @ name_b @ py '' utilizing '' @ ingredients_b @ py ''. In terms of pricing, ''
           @ price_comparison @ py '', making it the more budget-friendly option.''
     in
     bind (getitem comparison ''more_versatile'') (\<lambda>more_versatile.
     let versatility_winner = (if more_versatile = StrV (py ''product_a'') then name_a else name_b)
     in
     bind (getitem product_a ''benefits'') (\<lambda>benefits_a.
     bind (getitem product_b ''benefits'') (\<lambda>benefits_b.
     bind (getitem comparison ''price_diff'') (\<lambda>price_diff.
     let para3 = versatility_winner
           @ py '' offers greater versatility in terms of skin type compatibility. For those seeking ''
           @ lower benefits_a @ py '', '' @ name_a @ py '' is the clear choice, while '' @ name_b
           @ py '' excels at '' @ lower benefits_b @ py ''. The price difference of '' @ [rupee]
           @ fmt price_diff
           @ py '' should be weighed against your specific skin concerns and budget constraints.''
     in Inr (para1 @ [10, 10] @ para2 @ [10, 10] @ para3)))))))))))))))))))))"

section \<open>comparison\_agent.py\<close>

definition recommend_for_skin_type :: "product \<Rightarrow> product \<Rightarrow> pystr \<Rightarrow> error + pystr" where
  "recommend_for_skin_type product_a product_b skin_type =
     bind (getitem product_a ''skin_type'') (\<lambda>skin_type_a.
     bind (getitem product_b ''skin_type'') (\<lambda>skin_type_b.
     let a_compatible = contains (lower skin_type_a) (lower skin_type);
         b_compatible = contains (lower skin_type_b) (lower skin_type)
     in if a_compatible \<and> \<not> b_compatible then getitem product_a ''name''
        else if b_compatible \<and> \<not> a_compatible then getitem product_b ''name''
        else Inr (py ''Both products suitable'')))"

text \<open>
  \<open>_recommend_by_price\<close> parses the digits with a bare \<open>int(...)\<close>: unlike
  \<open>_extract_price\<close> it has no guard for the empty digit string.
\<close>

definition recommend_by_price :: "product \<Rightarrow> product \<Rightarrow> error + pystr" where
  "recommend_by_price product_a product_b =
     bind (getitem product_a ''price'') (\<lambda>price_str_a.
     bind (py_int (digits_of price_str_a)) (\<lambda>price_a.
     bind (getitem product_b ''price'') (\<lambda>price_str_b.
     bind (py_int (digits_of price_str_b)) (\<lambda>price_b.
     if price_a < price_b then getitem product_a ''name'' else getitem product_b ''name''))))"

text \<open>
  The whole body of \<open>_recommend_by_effectiveness\<close> is inside \<open>try\<close>, the lookups of the
  names included; the bare \<open>except\<close> turns every exception into the fixed answer.
\<close>

definition recommend_by_effectiveness :: "product \<Rightarrow> product \<Rightarrow> pystr" where
  "recommend_by_effectiveness product_a product_b =
     (case bind (concentration product_a) (\<lambda>conc_a.
           bind (concentration product_b) (\<lambda>conc_b.
           if conc_a \<ge> conc_b then getitem product_a ''name''
           else getitem product_b ''name'')) of
        Inl e \<Rightarrow> py ''Both equally effective''
      | Inr name \<Rightarrow> name)"

definition generate_recommendations ::
  "product \<Rightarrow> product \<Rightarrow> comparison \<Rightarrow> error + (string \<rightharpoonup> pystr)" where
  "generate_recommendations product_a product_b comparison =
     bind (recommend_for_skin_type product_a product_b (py ''oily'')) (\<lambda>oily.
     bind (recommend_for_skin_type product_a product_b (py ''sensitive'')) (\<lambda>sensitive.
     bind (recommend_by_price product_a product_b) (\<lambda>budget.
     Inr (map_of
       [(''for_oily_skin'', oily),
        (''for_sensitive_skin'', sensitive),
        (''for_budget_conscious'', budget),
        (''for_maximum_results'', recommend_by_effectiveness product_a product_b)]))))"

text \<open>\<open>d.get(k, default)\<close> never raises.\<close>

definition get_default :: "(string \<rightharpoonup> 'v) \<Rightarrow> string \<Rightarrow> 'v \<Rightarrow> 'v" where
  "get_default d k dflt = (case d k of None \<Rightarrow> dflt | Some v \<Rightarrow> v)"

text \<open>
  \<open>comparison.get(k) == 'product_a'\<close>: true only when the key is present with exactly
  that string; an absent key gives \<open>None\<close>, which is not equal to it.
\<close>

definition marks_a :: "comparison \<Rightarrow> string \<Rightarrow> bool" where
  "marks_a comparison k = (comparison k = Some (StrV (py ''product_a'')))"

definition determine_winner :: "comparison \<Rightarrow> pyval" where
  "determine_winner comparison =
     (let score_a = (if marks_a comparison ''better_price'' then 1 else 0)
                  + (if marks_a comparison ''more_versatile'' then 1 else (0::int));
          score_b = (if marks_a comparison ''better_price'' then 0 else 1)
                  + (if marks_a comparison ''more_versatile'' then 0 else (1::int))
      in if score_a > score_b then get_default comparison ''product_a_name'' (StrV (py ''Product A''))
         else if score_b > score_a
         then get_default comparison ''product_b_name'' (StrV (py ''Product B''))
         else StrV (py ''Tie - Both excellent choices''))"

section \<open>Reading a result, and the inputs of the worked examples\<close>

text \<open>
  \<open>compare_products(a, b)[k]\<close>, and the winner computed from the comparison as
  \<open>process\<close> does it.
\<close>

definition field_of :: "error + comparison \<Rightarrow> string \<Rightarrow> error + pyval" where
  "field_of m k = bind m (\<lambda>comparison. getitem comparison k)"

definition winner_of :: "error + comparison \<Rightarrow> error + pyval" where
  "winner_of m = bind m (\<lambda>comparison. Inr (determine_winner comparison))"

text \<open>The two products of the scenario of the specification (they have no benefits).\<close>

definition scenario_a :: product where
  "scenario_a = map_of
     [(''name'', py ''A''), (''price'', rupee # py ''500''), (''concentration'', py ''10% X''),
      (''skin_type'', py ''Oily''), (''key_ingredients'', py ''X,Y'')]"

definition scenario_b :: product where
  "scenario_b = map_of
     [(''name'', py ''B''), (''price'', rupee # py ''800''), (''concentration'', py ''15% X''),
      (''skin_type'', py ''All''), (''key_ingredients'', py ''X,Z'')]"

text \<open>The same two products with all six fields.\<close>

definition serum_a :: product where
  "serum_a = map_of
     [(''name'', py ''A''), (''price'', rupee # py ''500''), (''concentration'', py ''10% X''),
      (''skin_type'', py ''Oily''), (''key_ingredients'', py ''X,Y''),
      (''benefits'', py ''Brightening'')]"

definition serum_b :: product where
  "serum_b = map_of
     [(''name'', py ''B''), (''price'', rupee # py ''800''), (''concentration'', py ''15% X''),
      (''skin_type'', py ''All''), (''key_ingredients'', py ''X,Z''),
      (''benefits'', py ''Hydration'')]"

text \<open>Product A with a price that holds no digit: every field is a present string.\<close>

definition unpriced_a :: product where
  "unpriced_a = map_of
     [(''name'', py ''A''), (''price'', py ''N/A''), (''concentration'', py ''10% X''),
      (''skin_type'', py ''Oily''), (''key_ingredients'', py ''X,Y''),
      (''benefits'', py ''Brightening'')]"

text \<open>Product A without the field \<open>concentration\<close>.\<close>

definition no_concentration_a :: product where
  "no_concentration_a = map_of
     [(''name'', py ''A''), (''price'', rupee # py ''500''),
      (''skin_type'', py ''Oily''), (''key_ingredients'', py ''X,Y''),
      (''benefits'', py ''Brightening'')]"

text \<open>Product A without the field \<open>price\<close>.\<close>

definition no_price_a :: product where
  "no_price_a = map_of
     [(''name'', py ''A''), (''concentration'', py ''10% X''),
      (''skin_type'', py ''Oily''), (''key_ingredients'', py ''X,Y''),
      (''benefits'', py ''Brightening'')]"

text \<open>
  A product whose name is the text of the tie message, cheaper and more versatile than
  the product it is compared with.
\<close>

definition tie_named_a :: product where
  "tie_named_a = map_of
     [(''name'', py ''Tie - Both excellent choices''), (''price'', rupee # py ''500''),
      (''concentration'', py ''10% X''), (''skin_type'', py ''All''),
      (''key_ingredients'', py ''X,Y''), (''benefits'', py ''Brightening'')]"

definition oily_b :: product where
  "oily_b = map_of
     [(''name'', py ''B''), (''price'', rupee # py ''800''), (''concentration'', py ''15% X''),
      (''skin_type'', py ''Oily''), (''key_ingredients'', py ''X,Z''),
      (''benefits'', py ''Hydration'')]"

text \<open>
  A product B that ties with \<open>serum_a\<close> on price, on concentration and on the number of
  skin types; neither skin type mentions "all".
\<close>

definition twin_b :: product where
  "twin_b = map_of
     [(''name'', py ''B''), (''price'', py ''Rs. 500''), (''concentration'', py ''10% Y''),
      (''skin_type'', py ''Dry''), (''key_ingredients'', py ''Z''),
      (''benefits'', py ''Hydration'')]"

text \<open>Product A with a concentration that holds no digit.\<close>

definition vague_a :: product where
  "vague_a = map_of
     [(''name'', py ''A''), (''price'', rupee # py ''500''), (''concentration'', py ''N/A''),
      (''skin_type'', py ''Oily''), (''key_ingredients'', py ''X,Y''),
      (''benefits'', py ''Brightening'')]"

text \<open>
  Two comparison records that agree on the four fields the winner reads and differ on a
  price, and one in which both fields mark product A.
\<close>

definition split_verdict :: comparison where
  "split_verdict = map_of
     [(''product_a_name'', StrV (py ''A'')), (''product_b_name'', StrV (py ''B'')),
      (''price_a'', IntV 500),
      (''better_price'', StrV (py ''product_a'')),
      (''more_versatile'', StrV (py ''product_b''))]"

definition split_verdict_repriced :: comparison where
  "split_verdict_repriced = map_of
     [(''product_a_name'', StrV (py ''A'')), (''product_b_name'', StrV (py ''B'')),
      (''price_a'', IntV 1),
      (''better_price'', StrV (py ''product_a'')),
      (''more_versatile'', StrV (py ''product_b''))]"

definition a_verdict :: comparison where
  "a_verdict = map_of
     [(''product_a_name'', StrV (py ''A'')), (''product_b_name'', StrV (py ''B'')),
      (''better_price'', StrV (py ''product_a'')),
      (''more_versatile'', StrV (py ''product_a''))]"

definition b_verdict :: comparison where
  "b_verdict = map_of
     [(''product_a_name'', StrV (py ''A'')), (''product_b_name'', StrV (py ''B'')),
      (''better_price'', StrV (py ''product_b'')),
      (''more_versatile'', StrV (py ''product_b''))]"

text \<open>
  Ten ingredients, and the first seven of them in another case and without the spaces:
  the Jaccard similarity is 7/10.
\<close>

definition ten_ingredients :: pystr where
  "ten_ingredients = py ''A, B, C, d, e, f, g, h, i, j''"

definition seven_ingredients :: pystr where
  "seven_ingredients = py ''a,b,c,D,E,F,G''"

text \<open>
  A price of 4301 digits, a product with that price and all six fields, and a product
  with that price and no name.
\<close>

definition long_price :: pystr where
  "long_price = replicate 4301 48"

definition long_price_a :: product where
  "long_price_a = map_of
     [(''name'', py ''A''), (''price'', long_price), (''concentration'', py ''10% X''),
      (''skin_type'', py ''Oily''), (''key_ingredients'', py ''X,Y''),
      (''benefits'', py ''Brightening'')]"

definition long_price_nameless :: product where
  "long_price_nameless = map_of
     [(''price'', long_price), (''concentration'', py ''10% X''),
      (''skin_type'', py ''Oily''), (''key_ingredients'', py ''X,Y''),
      (''benefits'', py ''Brightening'')]"

section \<open>Splitting and token sets\<close>

lemma split_comma_not_Nil: "split_comma s \<noteq> []"
  by (cases s) (simp_all split: list.split)

lemma finite_tokens: "finite (tokens s)"
  by (simp add: tokens_def)

lemma tokens_not_empty: "tokens s \<noteq> {}"
  by (simp add: tokens_def split_comma_not_Nil)

lemma card_tokens_pos: "0 < card (tokens s)"
  using finite_tokens tokens_not_empty by (simp add: card_gt_0_iff)

lemma card_union_tokens_pos: "0 < card (tokens s \<union> tokens t)"
  using finite_tokens tokens_not_empty by (simp add: card_gt_0_iff)

lemma similarity_bounds:
  "0 \<le> similarity (tokens s) (tokens t) \<and> similarity (tokens s) (tokens t) \<le> 1"
proof -
  have "card (tokens s \<inter> tokens t) \<le> card (tokens s \<union> tokens t)"
    by (rule card_mono) (auto simp: finite_tokens)
  then show ?thesis
    using card_union_tokens_pos [of s t] by (simp add: similarity_def)
qed

lemma similarity_self: "similarity (tokens s) (tokens s) = 1"
  using card_tokens_pos [of s] by (simp add: similarity_def)

lemma similarity_commute: "similarity A B = similarity B A"
  by (simp add: similarity_def Int_commute Un_commute)

lemma overlap_by_thresholds:
  "calculate_ingredient_overlap a b =
     (if similarity (tokens a) (tokens b) > 7 / 10 then py ''High similarity''
      else if similarity (tokens a) (tokens b) > 3 / 10 then py ''Medium similarity''
      else py ''Different formulations'')"
  using card_union_tokens_pos [of a b]
  by (simp add: calculate_ingredient_overlap_def Let_def)

section \<open>The set-overlap analyzer\<close>

lemma tokens_example:
  "tokens (py ''Zinc, Aloe Vera,zinc'') = {py ''zinc'', py ''aloevera''}"
  by code_simp

text \<open>
  Claim C7. The token set of an ingredient string is the set of the pieces between the
  commas of the lower-cased string with its spaces removed, and the similarity of two
  token sets is the size of their intersection divided by the size of their union. For
  every pair of ingredient strings the label is decided by strict thresholds on that
  similarity: above 7/10 it is "High similarity", above 3/10 "Medium similarity",
  otherwise "Different formulations". A similarity of exactly 7/10 gives
  "Medium similarity", and the similarity always lies between 0 and 1.
\<close>

theorem ingredient_label_thresholds:
  "tokens a = set (split_comma (filter (\<lambda>c. c \<noteq> 32) (lower a)))
   \<and> tokens (py ''Zinc, Aloe Vera,zinc'') = {py ''zinc'', py ''aloevera''}
   \<and> similarity (tokens a) (tokens b)
       = of_nat (card (tokens a \<inter> tokens b)) / of_nat (card (tokens a \<union> tokens b))
   \<and> calculate_ingredient_overlap a b =
     (if similarity (tokens a) (tokens b) > 7 / 10 then py ''High similarity''
      else if similarity (tokens a) (tokens b) > 3 / 10 then py ''Medium similarity''
      else py ''Different formulations'')
   \<and> 0 \<le> similarity (tokens a) (tokens b)
   \<and> similarity (tokens a) (tokens b) \<le> 1
   \<and> (similarity (tokens a) (tokens b) = 7 / 10
        \<longrightarrow> calculate_ingredient_overlap a b = py ''Medium similarity'')"
proof -
  have pieces: "tokens a = set (split_comma (filter (\<lambda>c. c \<noteq> 32) (lower a)))"
    by (simp add: tokens_def replace_space_def)
  have ratio: "similarity (tokens a) (tokens b)
       = of_nat (card (tokens a \<inter> tokens b)) / of_nat (card (tokens a \<union> tokens b))"
    by (simp add: similarity_def)
  have exact: "similarity (tokens a) (tokens b) = 7 / 10
      \<longrightarrow> calculate_ingredient_overlap a b = py ''Medium similarity''"
    by (simp add: overlap_by_thresholds)
  show ?thesis
    using pieces tokens_example ratio overlap_by_thresholds [of a b] similarity_bounds [of a b]
      exact
    by blast
qed

lemma seven_of_ten:
  "tokens ten_ingredients =
     {py ''a'', py ''b'', py ''c'', py ''d'', py ''e'', py ''f'', py ''g'', py ''h'', py ''i'',
      py ''j''}"
  "tokens seven_ingredients =
     {py ''a'', py ''b'', py ''c'', py ''d'', py ''e'', py ''f'', py ''g''}"
  "similarity (tokens ten_ingredients) (tokens seven_ingredients) = 7 / 10"
  by code_simp+

theorem ingredient_label_thresholds_witness:
  "tokens ten_ingredients =
     {py ''a'', py ''b'', py ''c'', py ''d'', py ''e'', py ''f'', py ''g'', py ''h'', py ''i'',
      py ''j''}
   \<and> tokens seven_ingredients =
     {py ''a'', py ''b'', py ''c'', py ''d'', py ''e'', py ''f'', py ''g''}
   \<and> similarity (tokens ten_ingredients) (tokens seven_ingredients) = 7 / 10
   \<and> calculate_ingredient_overlap ten_ingredients seven_ingredients = py ''Medium similarity''"
proof -
  have "calculate_ingredient_overlap ten_ingredients seven_ingredients
      = py ''Medium similarity''"
    using seven_of_ten(3) ingredient_label_thresholds [of ten_ingredients seven_ingredients]
    by blast
  then show ?thesis
    using seven_of_ten by blast
qed

text \<open>
  Claim C8. Both analyzers are symmetric: the skin-type label and the ingredient label
  of (a, b) are those of (b, a).
\<close>

theorem overlap_labels_symmetric:
  "analyze_skin_type_overlap a b = analyze_skin_type_overlap b a
   \<and> calculate_ingredient_overlap a b = calculate_ingredient_overlap b a"
proof
  show "analyze_skin_type_overlap a b = analyze_skin_type_overlap b a"
    by (simp add: analyze_skin_type_overlap_def Let_def Int_commute disj_commute conj_commute)
  show "calculate_ingredient_overlap a b = calculate_ingredient_overlap b a"
    by (simp add: calculate_ingredient_overlap_def Let_def Un_commute
        similarity_commute [of "tokens a"])
qed

text \<open>
  Claim C9. The label "Unknown" is never returned: splitting on commas always yields at
  least one token, so the union of the two token sets is never empty. When both
  ingredient strings are empty, both token sets are the singleton of the empty token, the
  similarity is 1 and the label is "High similarity".
\<close>

theorem unknown_label_unreachable:
  "split_comma s \<noteq> []
   \<and> tokens a \<union> tokens b \<noteq> {}
   \<and> 0 < card (tokens a \<union> tokens b)
   \<and> calculate_ingredient_overlap a b \<noteq> py ''Unknown''
   \<and> tokens [] = {[]}
   \<and> similarity (tokens []) (tokens []) = 1
   \<and> calculate_ingredient_overlap [] [] = py ''High similarity''"
proof -
  have known: "calculate_ingredient_overlap a b \<noteq> py ''Unknown''"
    by (simp add: overlap_by_thresholds py_def)
  have empty_tokens: "tokens [] = {[]}"
    by (simp add: tokens_def lower_def replace_space_def)
  have both_empty: "calculate_ingredient_overlap [] [] = py ''High similarity''"
    by (simp add: overlap_by_thresholds similarity_self)
  show ?thesis
    using split_comma_not_Nil [of s] tokens_not_empty [of a] card_union_tokens_pos [of a b]
      known empty_tokens similarity_self [of "[]"] both_empty
    by simp
qed

section \<open>The comparison engine\<close>

lemma py_eq_iff: "py s = py t \<longleftrightarrow> s = t"
  by (simp add: py_def inj_map_eq_map inj_def)

lemma extract_price_Inr:
  assumes "length (digits_of s) \<le> int_max_str_digits"
  shows "extract_price s = Inr (if digits_of s = [] then 0 else int_of_digits (digits_of s))"
  using assms by (simp add: extract_price_def py_int_def Let_def)

lemma extract_price_long:
  assumes "int_max_str_digits < length (digits_of s)"
  shows "extract_price s = Inl ValueError"
  using assms by (auto simp add: extract_price_def py_int_def Let_def)

lemma digits_of_long_price: "digits_of long_price = long_price"
  by (simp add: digits_of_def long_price_def is_digit_def)

lemma long_price_raises: "extract_price long_price = Inl ValueError"
  by (rule extract_price_long)
    (simp add: digits_of_long_price, simp add: long_price_def int_max_str_digits_def)

text \<open>
  When the four fields that \<open>compare_products\<close> looks up outside its \<open>try\<close> block are
  present in both products, it returns the dictionary of the source.
\<close>

lemma compare_products_present:
  assumes "product_a ''price'' = Some pa" and "product_b ''price'' = Some pb"
    and "product_a ''name'' = Some na" and "product_b ''name'' = Some nb"
    and "product_a ''skin_type'' = Some sa" and "product_b ''skin_type'' = Some sb"
    and "product_a ''key_ingredients'' = Some ia" and "product_b ''key_ingredients'' = Some ib"
    and "extract_price pa = Inr xa" and "extract_price pb = Inr xb"
    and "concentrations product_a product_b = (ca, cb)"
  shows "compare_products product_a product_b = Inr (map_of
       [(''product_a_name'', StrV na),
        (''product_b_name'', StrV nb),
        (''price_a'', IntV xa),
        (''price_b'', IntV xb),
        (''price_diff'', IntV (abs (xa - xb))),
        (''cheaper_product'', StrV (if xa < xb then na else nb)),
        (''better_price'', StrV (if xa < xb then py ''product_a'' else py ''product_b'')),
        (''concentration_a'', IntV ca),
        (''concentration_b'', IntV cb),
        (''concentration_diff'', StrV (str_int (abs (ca - cb)) @ py ''%'')),
        (''higher_concentration'', StrV (if ca > cb then na else nb)),
        (''skin_type_a'', StrV sa),
        (''skin_type_b'', StrV sb),
        (''skin_type_match'', StrV (analyze_skin_type_overlap sa sb)),
        (''ingredients_a'', StrV ia),
        (''ingredients_b'', StrV ib),
        (''ingredient_similarity'', StrV (calculate_ingredient_overlap ia ib)),
        (''more_versatile'', StrV (determine_versatility sa sb))])"
  using assms by (simp add: compare_products_def getitem_def bind_def)

lemma concentrations_self: "fst (concentrations a a) = snd (concentrations a a)"
  by (cases "concentration a") (simp_all add: concentrations_def bind_def)

lemma skin_overlap_self:
  "analyze_skin_type_overlap s s =
     (if contains (lower s) (py ''all'') then py ''One product suits all skin types''
      else py ''Identical skin type targeting'')"
  using card_tokens_pos [of s] by (simp add: analyze_skin_type_overlap_def Let_def)

lemma ingredient_overlap_self: "calculate_ingredient_overlap s s = py ''High similarity''"
  by (simp add: overlap_by_thresholds similarity_self)

lemma zero_percent: "str_int 0 @ py ''%'' = py ''0%''"
  by (simp add: str_int_def py_def)

subsection \<open>The scenario of the specification\<close>

lemma scenario_a_fields:
  "scenario_a ''price'' = Some (rupee # py ''500'')"
  "scenario_a ''name'' = Some (py ''A'')"
  "scenario_a ''skin_type'' = Some (py ''Oily'')"
  "scenario_a ''key_ingredients'' = Some (py ''X,Y'')"
  by (simp_all add: scenario_a_def)

lemma scenario_b_fields:
  "scenario_b ''price'' = Some (rupee # py ''800'')"
  "scenario_b ''name'' = Some (py ''B'')"
  "scenario_b ''skin_type'' = Some (py ''All'')"
  "scenario_b ''key_ingredients'' = Some (py ''X,Z'')"
  by (simp_all add: scenario_b_def)

lemma scenario_prices:
  "extract_price (rupee # py ''500'') = Inr 500"
  "extract_price (rupee # py ''800'') = Inr 800"
  by code_simp+

lemma scenario_concentrations: "concentrations scenario_a scenario_b = (10, 15)"
  by code_simp

lemma scenario_labels:
  "analyze_skin_type_overlap (py ''Oily'') (py ''All'') = py ''One product suits all skin types''"
  "calculate_ingredient_overlap (py ''X,Y'') (py ''X,Z'') = py ''Medium similarity''"
  "determine_versatility (py ''Oily'') (py ''All'') = py ''product_b''"
  by code_simp+

lemmas scenario_compare =
  compare_products_present [OF scenario_a_fields(1) scenario_b_fields(1) scenario_a_fields(2)
    scenario_b_fields(2) scenario_a_fields(3) scenario_b_fields(3) scenario_a_fields(4)
    scenario_b_fields(4) scenario_prices(1) scenario_prices(2) scenario_concentrations]

lemma scenario_result:
  "field_of (compare_products scenario_a scenario_b) ''price_a'' = Inr (IntV 500)"
  "field_of (compare_products scenario_a scenario_b) ''price_b'' = Inr (IntV 800)"
  "field_of (compare_products scenario_a scenario_b) ''price_diff'' = Inr (IntV 300)"
  "field_of (compare_products scenario_a scenario_b) ''cheaper_product'' = Inr (StrV (py ''A''))"
  "field_of (compare_products scenario_a scenario_b) ''better_price''
     = Inr (StrV (py ''product_a''))"
  "field_of (compare_products scenario_a scenario_b) ''concentration_a'' = Inr (IntV 10)"
  "field_of (compare_products scenario_a scenario_b) ''concentration_b'' = Inr (IntV 15)"
  "field_of (compare_products scenario_a scenario_b) ''higher_concentration''
     = Inr (StrV (py ''B''))"
  "field_of (compare_products scenario_a scenario_b) ''skin_type_match''
     = Inr (StrV (py ''One product suits all skin types''))"
  "field_of (compare_products scenario_a scenario_b) ''ingredient_similarity''
     = Inr (StrV (py ''Medium similarity''))"
  "field_of (compare_products scenario_a scenario_b) ''more_versatile''
     = Inr (StrV (py ''product_b''))"
  by (simp_all add: scenario_compare scenario_labels field_of_def bind_def getitem_def py_eq_iff)

lemma scenario_winner:
  "winner_of (compare_products scenario_a scenario_b)
     = Inr (StrV (py ''Tie - Both excellent choices''))"
  by (simp add: scenario_compare scenario_labels winner_of_def bind_def determine_winner_def
      marks_a_def py_eq_iff)

lemma scenario_jaccard: "similarity (tokens (py ''X,Y'')) (tokens (py ''X,Z'')) = 1 / 3"
  by code_simp

text \<open>
  Claim C1, as amended. On the scenario products \<open>compare_products\<close> returns price\_a = 500,
  price\_b = 800, price\_diff = 300, cheaper\_product = "A", better\_price = "product\_a",
  concentration\_a = 10, concentration\_b = 15, higher\_concentration = "B",
  skin\_type\_match = "One product suits all skin types", more\_versatile = "product\_b",
  and the winner is "Tie - Both excellent choices". The Jaccard similarity of the
  ingredients is 1/3, which is above the threshold 3/10, so ingredient\_similarity is
  "Medium similarity".
\<close>

theorem scenario_comparison:
  "field_of (compare_products scenario_a scenario_b) ''price_a'' = Inr (IntV 500)
   \<and> field_of (compare_products scenario_a scenario_b) ''price_b'' = Inr (IntV 800)
   \<and> field_of (compare_products scenario_a scenario_b) ''price_diff'' = Inr (IntV 300)
   \<and> field_of (compare_products scenario_a scenario_b) ''cheaper_product'' = Inr (StrV (py ''A''))
   \<and> field_of (compare_products scenario_a scenario_b) ''better_price''
       = Inr (StrV (py ''product_a''))
   \<and> field_of (compare_products scenario_a scenario_b) ''concentration_a'' = Inr (IntV 10)
   \<and> field_of (compare_products scenario_a scenario_b) ''concentration_b'' = Inr (IntV 15)
   \<and> field_of (compare_products scenario_a scenario_b) ''higher_concentration''
       = Inr (StrV (py ''B''))
   \<and> field_of (compare_products scenario_a scenario_b) ''skin_type_match''
       = Inr (StrV (py ''One product suits all skin types''))
   \<and> similarity (tokens (py ''X,Y'')) (tokens (py ''X,Z'')) = 1 / 3
   \<and> field_of (compare_products scenario_a scenario_b) ''ingredient_similarity''
       = Inr (StrV (py ''Medium similarity''))
   \<and> field_of (compare_products scenario_a scenario_b) ''more_versatile''
       = Inr (StrV (py ''product_b''))
   \<and> winner_of (compare_products scenario_a scenario_b)
       = Inr (StrV (py ''Tie - Both excellent choices''))"
  by (intro conjI) (rule scenario_result scenario_jaccard scenario_winner)+

text \<open>
  Claim C1 as stated fails: the ingredient similarity of the scenario is not
  "Different formulations".
\<close>

theorem scenario_similarity_counterexample:
  "field_of (compare_products scenario_a scenario_b) ''ingredient_similarity''
     \<noteq> Inr (StrV (py ''Different formulations''))"
  by (simp add: scenario_result py_eq_iff)

subsection \<open>A product compared with itself\<close>

text \<open>
  Claim C4, as amended. For every product \<open>a\<close> whose fields are present and whose price
  holds at most 4300 digits, \<open>compare_products a a\<close> has price\_diff = 0,
  concentration\_diff = "0%" and ingredient\_similarity = "High similarity";
  skin\_type\_match is "Identical skin type targeting" when the lower-cased skin type
  does not contain "all", and "One product suits all skin types" when it does.
\<close>

theorem compare_with_itself:
  assumes "a ''price'' = Some p" and "a ''name'' = Some n"
    and "a ''skin_type'' = Some s" and "a ''key_ingredients'' = Some i"
    and "length (digits_of p) \<le> int_max_str_digits"
  shows "field_of (compare_products a a) ''price_diff'' = Inr (IntV 0)
   \<and> field_of (compare_products a a) ''concentration_diff'' = Inr (StrV (py ''0%''))
   \<and> field_of (compare_products a a) ''skin_type_match''
       = Inr (StrV (if contains (lower s) (py ''all'')
                    then py ''One product suits all skin types''
                    else py ''Identical skin type targeting''))
   \<and> field_of (compare_products a a) ''ingredient_similarity''
       = Inr (StrV (py ''High similarity''))"
proof -
  obtain x where x: "extract_price p = Inr x"
    using extract_price_Inr [OF assms(5)] by blast
  obtain c where c: "concentrations a a = (c, c)"
    using concentrations_self [of a] by (cases "concentrations a a") simp
  note r = compare_products_present [OF assms(1) assms(1) assms(2) assms(2) assms(3) assms(3)
      assms(4) assms(4) x x c]
  show ?thesis
    by (simp add: r field_of_def bind_def getitem_def skin_overlap_self
        ingredient_overlap_self zero_percent)
qed

lemma serum_a_fields:
  "serum_a ''price'' = Some (rupee # py ''500'')"
  "serum_a ''name'' = Some (py ''A'')"
  "serum_a ''skin_type'' = Some (py ''Oily'')"
  "serum_a ''key_ingredients'' = Some (py ''X,Y'')"
  by (simp_all add: serum_a_def)

lemma serum_b_fields:
  "serum_b ''price'' = Some (rupee # py ''800'')"
  "serum_b ''name'' = Some (py ''B'')"
  "serum_b ''skin_type'' = Some (py ''All'')"
  "serum_b ''key_ingredients'' = Some (py ''X,Z'')"
  by (simp_all add: serum_b_def)

lemma short_prices:
  "length (digits_of (rupee # py ''500'')) \<le> int_max_str_digits"
  "length (digits_of (rupee # py ''800'')) \<le> int_max_str_digits"
  by code_simp+

lemma all_in_skin_types:
  "contains (lower (py ''Oily'')) (py ''all'') = False"
  "contains (lower (py ''All'')) (py ''all'') = True"
  "contains (lower (py ''Dry'')) (py ''all'') = False"
  by code_simp+

theorem compare_with_itself_witness:
  "field_of (compare_products serum_a serum_a) ''price_diff'' = Inr (IntV 0)
   \<and> field_of (compare_products serum_a serum_a) ''concentration_diff'' = Inr (StrV (py ''0%''))
   \<and> field_of (compare_products serum_a serum_a) ''skin_type_match''
       = Inr (StrV (py ''Identical skin type targeting''))
   \<and> field_of (compare_products serum_a serum_a) ''ingredient_similarity''
       = Inr (StrV (py ''High similarity''))"
  using compare_with_itself [OF serum_a_fields short_prices(1)]
  by (simp add: all_in_skin_types)

lemma long_price_a_price: "long_price_a ''price'' = Some long_price"
  by (simp add: long_price_a_def)

lemma long_price_a_compare: "compare_products long_price_a long_price_a = Inl ValueError"
  by (simp add: compare_products_def getitem_def bind_def long_price_a_price long_price_raises)

text \<open>
  Claim C4 as stated fails for a product that suits all skin types: compared with itself
  its skin\_type\_match is not "Identical skin type targeting". It also fails for a
  product whose price has 4301 digits: \<open>int\<close> raises \<open>ValueError\<close> in \<open>_extract_price\<close>, so
  there is no price\_diff.
\<close>

theorem compare_with_itself_counterexample:
  "field_of (compare_products serum_b serum_b) ''skin_type_match''
     \<noteq> Inr (StrV (py ''Identical skin type targeting''))
   \<and> field_of (compare_products long_price_a long_price_a) ''price_diff'' = Inl ValueError"
proof -
  have long: "field_of (compare_products long_price_a long_price_a) ''price_diff''
      = Inl ValueError"
    by (simp add: long_price_a_compare field_of_def bind_def)
  obtain c where c: "concentrations serum_b serum_b = (c, c)"
    using concentrations_self [of serum_b] by (cases "concentrations serum_b serum_b") simp
  note r = compare_products_present [OF serum_b_fields(1) serum_b_fields(1) serum_b_fields(2)
      serum_b_fields(2) serum_b_fields(3) serum_b_fields(3) serum_b_fields(4) serum_b_fields(4)
      scenario_prices(2) scenario_prices(2) c]
  have "field_of (compare_products serum_b serum_b) ''skin_type_match''
     \<noteq> Inr (StrV (py ''Identical skin type targeting''))"
    by (simp add: r field_of_def bind_def getitem_def skin_overlap_self all_in_skin_types py_eq_iff)
  then show ?thesis
    using long by blast
qed

subsection \<open>Ties\<close>

text \<open>
  Claim C5. Every tie of \<open>compare_products\<close> resolves to product B. With \<open>xa\<close>, \<open>xb\<close> the
  extracted prices and \<open>ca\<close>, \<open>cb\<close> the extracted concentrations: equal prices give
  cheaper\_product = B's name and better\_price = "product\_b"; equal concentrations give
  higher\_concentration = B's name; when neither skin type contains "all" and the numbers
  of comma-separated tokens are equal, more\_versatile = "product\_b". Product A takes a
  field only by strict inequality: the name fields are chosen by \<open>xa < xb\<close> and
  \<open>ca > cb\<close>, better\_price is "product\_a" exactly when \<open>xa < xb\<close>, and without "all"
  more\_versatile is "product\_a" exactly when A has strictly more tokens.
\<close>

theorem ties_favour_product_b:
  assumes "a ''price'' = Some pa" and "b ''price'' = Some pb"
    and "a ''name'' = Some na" and "b ''name'' = Some nb"
    and "a ''skin_type'' = Some sa" and "b ''skin_type'' = Some sb"
    and "a ''key_ingredients'' = Some ia" and "b ''key_ingredients'' = Some ib"
    and "extract_price pa = Inr xa" and "extract_price pb = Inr xb"
    and "concentrations a b = (ca, cb)"
  shows "field_of (compare_products a b) ''price_a'' = Inr (IntV xa)
   \<and> field_of (compare_products a b) ''price_b'' = Inr (IntV xb)
   \<and> field_of (compare_products a b) ''concentration_a'' = Inr (IntV ca)
   \<and> field_of (compare_products a b) ''concentration_b'' = Inr (IntV cb)
   \<and> (xa = xb \<longrightarrow>
        field_of (compare_products a b) ''cheaper_product'' = Inr (StrV nb)
        \<and> field_of (compare_products a b) ''better_price'' = Inr (StrV (py ''product_b'')))
   \<and> field_of (compare_products a b) ''cheaper_product''
       = Inr (StrV (if xa < xb then na else nb))
   \<and> (field_of (compare_products a b) ''better_price'' = Inr (StrV (py ''product_a''))
        \<longleftrightarrow> xa < xb)
   \<and> (ca = cb \<longrightarrow>
        field_of (compare_products a b) ''higher_concentration'' = Inr (StrV nb))
   \<and> field_of (compare_products a b) ''higher_concentration''
       = Inr (StrV (if ca > cb then na else nb))
   \<and> (\<not> contains (lower sa) (py ''all'') \<and> \<not> contains (lower sb) (py ''all'') \<longrightarrow>
        (length (split_comma sa) = length (split_comma sb) \<longrightarrow>
           field_of (compare_products a b) ''more_versatile'' = Inr (StrV (py ''product_b'')))
        \<and> (field_of (compare_products a b) ''more_versatile'' = Inr (StrV (py ''product_a''))
             \<longleftrightarrow> length (split_comma sa) > length (split_comma sb)))"
proof -
  note r = compare_products_present [OF assms]
  have prices: "field_of (compare_products a b) ''price_a'' = Inr (IntV xa)"
    "field_of (compare_products a b) ''price_b'' = Inr (IntV xb)"
    "field_of (compare_products a b) ''concentration_a'' = Inr (IntV ca)"
    "field_of (compare_products a b) ''concentration_b'' = Inr (IntV cb)"
    by (simp_all add: r field_of_def bind_def getitem_def)
  have cheaper: "field_of (compare_products a b) ''cheaper_product''
       = Inr (StrV (if xa < xb then na else nb))"
    by (simp add: r field_of_def bind_def getitem_def)
  have better: "field_of (compare_products a b) ''better_price''
       = Inr (StrV (if xa < xb then py ''product_a'' else py ''product_b''))"
    by (simp add: r field_of_def bind_def getitem_def)
  have higher: "field_of (compare_products a b) ''higher_concentration''
       = Inr (StrV (if ca > cb then na else nb))"
    by (simp add: r field_of_def bind_def getitem_def)
  have versatile: "field_of (compare_products a b) ''more_versatile''
       = Inr (StrV (determine_versatility sa sb))"
    by (simp add: r field_of_def bind_def getitem_def)
  have no_all: "\<not> contains (lower sa) (py ''all'') \<and> \<not> contains (lower sb) (py ''all'') \<longrightarrow>
      determine_versatility sa sb
        = (if length (split_comma sa) > length (split_comma sb)
           then py ''product_a'' else py ''product_b'')"
    by (simp add: determine_versatility_def Let_def)
  show ?thesis
    unfolding prices cheaper better higher versatile
    using no_all by (simp add: py_eq_iff)
qed

lemma twin_b_fields:
  "twin_b ''price'' = Some (py ''Rs. 500'')"
  "twin_b ''name'' = Some (py ''B'')"
  "twin_b ''skin_type'' = Some (py ''Dry'')"
  "twin_b ''key_ingredients'' = Some (py ''Z'')"
  by (simp_all add: twin_b_def)

lemma twin_price: "extract_price (py ''Rs. 500'') = Inr 500"
  by code_simp

lemma twin_concentrations: "concentrations serum_a twin_b = (10, 10)"
  by code_simp

lemma twin_token_counts:
  "length (split_comma (py ''Oily'')) = 1"
  "length (split_comma (py ''Dry'')) = 1"
  by code_simp+

theorem ties_favour_product_b_witness:
  "field_of (compare_products serum_a twin_b) ''price_a'' = Inr (IntV 500)
   \<and> field_of (compare_products serum_a twin_b) ''price_b'' = Inr (IntV 500)
   \<and> field_of (compare_products serum_a twin_b) ''concentration_a'' = Inr (IntV 10)
   \<and> field_of (compare_products serum_a twin_b) ''concentration_b'' = Inr (IntV 10)
   \<and> field_of (compare_products serum_a twin_b) ''cheaper_product'' = Inr (StrV (py ''B''))
   \<and> field_of (compare_products serum_a twin_b) ''better_price'' = Inr (StrV (py ''product_b''))
   \<and> field_of (compare_products serum_a twin_b) ''higher_concentration'' = Inr (StrV (py ''B''))
   \<and> field_of (compare_products serum_a twin_b) ''more_versatile''
       = Inr (StrV (py ''product_b''))"
  using ties_favour_product_b [OF serum_a_fields(1) twin_b_fields(1) serum_a_fields(2)
      twin_b_fields(2) serum_a_fields(3) twin_b_fields(3) serum_a_fields(4) twin_b_fields(4)
      scenario_prices(1) twin_price twin_concentrations]
  by (simp add: all_in_skin_types twin_token_counts)

section \<open>Recommendations and the winner\<close>

lemma concentration_first_three:
  "a ''concentration'' = Some s \<Longrightarrow> concentration a = py_int (digits_of (take 3 s))"
  by (simp add: concentration_def bind_def getitem_def)

lemma effectiveness_extracted:
  assumes "concentration a = Inr ca" and "concentration b = Inr cb"
    and "a ''name'' = Some na" and "b ''name'' = Some nb"
  shows "recommend_by_effectiveness a b = (if ca \<ge> cb then na else nb)"
  using assms by (simp add: recommend_by_effectiveness_def bind_def getitem_def)

lemma effectiveness_failed:
  assumes "isl (concentration a) \<or> isl (concentration b)"
  shows "recommend_by_effectiveness a b = py ''Both equally effective''"
  using assms
  by (auto simp add: recommend_by_effectiveness_def bind_def isl_def split: sum.splits)

text \<open>
  Claim C6. The concentration is read from the first three characters of the field. When
  both extractions succeed, the recommendation for maximum results is the name of
  product A if its concentration is greater than or equal to that of product B (a tie
  goes to A) and the name of product B otherwise; when an extraction fails, for whatever
  reason, it is the text "Both equally effective".
\<close>

theorem effectiveness_recommendation:
  "(a ''concentration'' = Some s \<longrightarrow> concentration a = py_int (digits_of (take 3 s)))
   \<and> (concentration a = Inr ca \<and> concentration b = Inr cb
        \<and> a ''name'' = Some na \<and> b ''name'' = Some nb \<longrightarrow>
        recommend_by_effectiveness a b = (if ca \<ge> cb then na else nb)
        \<and> (na \<noteq> nb \<longrightarrow> (recommend_by_effectiveness a b = na \<longleftrightarrow> ca \<ge> cb)))
   \<and> (isl (concentration a) \<or> isl (concentration b) \<longrightarrow>
        recommend_by_effectiveness a b = py ''Both equally effective'')"
proof (intro conjI impI)
  assume "a ''concentration'' = Some s"
  then show "concentration a = py_int (digits_of (take 3 s))"
    by (rule concentration_first_three)
next
  assume h: "concentration a = Inr ca \<and> concentration b = Inr cb
        \<and> a ''name'' = Some na \<and> b ''name'' = Some nb"
  then show "recommend_by_effectiveness a b = (if ca \<ge> cb then na else nb)"
    by (simp add: effectiveness_extracted)
  assume "na \<noteq> nb"
  with h show "recommend_by_effectiveness a b = na \<longleftrightarrow> ca \<ge> cb"
    by (auto simp add: effectiveness_extracted [of a ca b cb na nb])
next
  assume "isl (concentration a) \<or> isl (concentration b)"
  then show "recommend_by_effectiveness a b = py ''Both equally effective''"
    by (rule effectiveness_failed)
qed

lemma example_concentrations:
  "concentration serum_a = Inr 10"
  "concentration twin_b = Inr 10"
  "concentration serum_b = Inr 15"
  "concentration vague_a = Inl ValueError"
  "py_int (digits_of (take 3 (py ''10% X''))) = Inr 10"
  by code_simp+

lemma serum_a_concentration: "serum_a ''concentration'' = Some (py ''10% X'')"
  by (simp add: serum_a_def)

theorem effectiveness_recommendation_witness:
  "concentration serum_a = Inr 10
   \<and> recommend_by_effectiveness serum_a twin_b = py ''A''
   \<and> recommend_by_effectiveness vague_a serum_b = py ''Both equally effective''"
  using effectiveness_recommendation [of serum_a "py ''10% X''" 10 twin_b 10 "py ''A''" "py ''B''"]
    effectiveness_recommendation [of vague_a "py ''N/A''" 0 serum_b 15 "py ''A''" "py ''B''"]
  by (simp add: example_concentrations serum_a_concentration serum_a_fields twin_b_fields
      py_eq_iff)

lemma winner_by_cases:
  "determine_winner c =
     (if marks_a c ''better_price'' \<and> marks_a c ''more_versatile''
      then get_default c ''product_a_name'' (StrV (py ''Product A''))
      else if \<not> marks_a c ''better_price'' \<and> \<not> marks_a c ''more_versatile''
      then get_default c ''product_b_name'' (StrV (py ''Product B''))
      else StrV (py ''Tie - Both excellent choices''))"
  by (simp add: determine_winner_def Let_def)

lemma winner_same_fields:
  assumes "c1 ''better_price'' = c2 ''better_price''"
    and "c1 ''more_versatile'' = c2 ''more_versatile''"
    and "c1 ''product_a_name'' = c2 ''product_a_name''"
    and "c1 ''product_b_name'' = c2 ''product_b_name''"
  shows "determine_winner c1 = determine_winner c2"
  using assms by (simp add: winner_by_cases marks_a_def get_default_def)

text \<open>
  Claim C10, as amended. The winner depends only on the fields better\_price,
  more\_versatile, product\_a\_name and product\_b\_name: two comparison records that agree
  on these four have the same winner. When the two verdict fields mark different sides
  the winner is "Tie - Both excellent choices"; when both mark product A it is
  product\_a\_name (default "Product A"), when neither does it is product\_b\_name (default
  "Product B"). So, provided neither name is itself the tie text, the tie text is
  returned exactly when the two fields mark different sides.
\<close>

theorem winner_reads_four_fields:
  "(c1 ''better_price'' = c2 ''better_price'' \<and> c1 ''more_versatile'' = c2 ''more_versatile''
     \<and> c1 ''product_a_name'' = c2 ''product_a_name''
     \<and> c1 ''product_b_name'' = c2 ''product_b_name''
     \<longrightarrow> determine_winner c1 = determine_winner c2)
   \<and> (marks_a c ''better_price'' \<noteq> marks_a c ''more_versatile''
        \<longrightarrow> determine_winner c = StrV (py ''Tie - Both excellent choices''))
   \<and> (marks_a c ''better_price'' \<and> marks_a c ''more_versatile''
        \<longrightarrow> determine_winner c = get_default c ''product_a_name'' (StrV (py ''Product A'')))
   \<and> (\<not> marks_a c ''better_price'' \<and> \<not> marks_a c ''more_versatile''
        \<longrightarrow> determine_winner c = get_default c ''product_b_name'' (StrV (py ''Product B'')))
   \<and> (get_default c ''product_a_name'' (StrV (py ''Product A''))
          \<noteq> StrV (py ''Tie - Both excellent choices'')
        \<and> get_default c ''product_b_name'' (StrV (py ''Product B''))
          \<noteq> StrV (py ''Tie - Both excellent choices'')
        \<longrightarrow> (determine_winner c = StrV (py ''Tie - Both excellent choices'')
              \<longleftrightarrow> marks_a c ''better_price'' \<noteq> marks_a c ''more_versatile''))"
proof -
  have same: "c1 ''better_price'' = c2 ''better_price''
     \<and> c1 ''more_versatile'' = c2 ''more_versatile''
     \<and> c1 ''product_a_name'' = c2 ''product_a_name''
     \<and> c1 ''product_b_name'' = c2 ''product_b_name''
     \<longrightarrow> determine_winner c1 = determine_winner c2"
    using winner_same_fields [of c1 c2] by blast
  show ?thesis
    using same by (auto simp add: winner_by_cases [of c])
qed

lemma verdict_examples:
  "split_verdict ''better_price'' = split_verdict_repriced ''better_price''
   \<and> split_verdict ''more_versatile'' = split_verdict_repriced ''more_versatile''
   \<and> split_verdict ''product_a_name'' = split_verdict_repriced ''product_a_name''
   \<and> split_verdict ''product_b_name'' = split_verdict_repriced ''product_b_name''"
  "marks_a split_verdict ''better_price'' \<noteq> marks_a split_verdict ''more_versatile''"
  "marks_a a_verdict ''better_price'' \<and> marks_a a_verdict ''more_versatile''"
  "\<not> marks_a b_verdict ''better_price'' \<and> \<not> marks_a b_verdict ''more_versatile''"
  "get_default a_verdict ''product_a_name'' (StrV (py ''Product A'')) = StrV (py ''A'')"
  "get_default b_verdict ''product_b_name'' (StrV (py ''Product B'')) = StrV (py ''B'')"
  by (simp_all add: split_verdict_def split_verdict_repriced_def a_verdict_def b_verdict_def
      marks_a_def get_default_def py_eq_iff)

theorem winner_reads_four_fields_witness:
  "determine_winner split_verdict = determine_winner split_verdict_repriced
   \<and> determine_winner split_verdict = StrV (py ''Tie - Both excellent choices'')
   \<and> determine_winner a_verdict = StrV (py ''A'')
   \<and> determine_winner b_verdict = StrV (py ''B'')"
proof -
  have "determine_winner split_verdict = determine_winner split_verdict_repriced"
    and "determine_winner split_verdict = StrV (py ''Tie - Both excellent choices'')"
    using winner_reads_four_fields [of split_verdict split_verdict_repriced split_verdict]
      verdict_examples(1,2) by blast+
  moreover have "determine_winner a_verdict = StrV (py ''A'')"
    using winner_reads_four_fields [of a_verdict a_verdict a_verdict] verdict_examples(3,5)
    by simp
  moreover have "determine_winner b_verdict = StrV (py ''B'')"
    using winner_reads_four_fields [of b_verdict b_verdict b_verdict] verdict_examples(4,6)
    by simp
  ultimately show ?thesis by blast
qed

lemma tie_named_a_fields:
  "tie_named_a ''price'' = Some (rupee # py ''500'')"
  "tie_named_a ''name'' = Some (py ''Tie - Both excellent choices'')"
  "tie_named_a ''skin_type'' = Some (py ''All'')"
  "tie_named_a ''key_ingredients'' = Some (py ''X,Y'')"
  by (simp_all add: tie_named_a_def)

lemma oily_b_fields:
  "oily_b ''price'' = Some (rupee # py ''800'')"
  "oily_b ''name'' = Some (py ''B'')"
  "oily_b ''skin_type'' = Some (py ''Oily'')"
  "oily_b ''key_ingredients'' = Some (py ''X,Z'')"
  by (simp_all add: oily_b_def)

lemma tie_named_versatility: "determine_versatility (py ''All'') (py ''Oily'') = py ''product_a''"
  by code_simp

text \<open>
  Claim C10 as stated fails when the winning product is named like the tie text: both
  verdict fields mark product A, and the winner is the tie text all the same.
\<close>

theorem winner_tie_text_counterexample:
  "field_of (compare_products tie_named_a oily_b) ''better_price''
     = Inr (StrV (py ''product_a''))
   \<and> field_of (compare_products tie_named_a oily_b) ''more_versatile''
     = Inr (StrV (py ''product_a''))
   \<and> winner_of (compare_products tie_named_a oily_b)
     = Inr (StrV (py ''Tie - Both excellent choices''))"
proof -
  obtain ca cb where c: "concentrations tie_named_a oily_b = (ca, cb)"
    by (cases "concentrations tie_named_a oily_b")
  note r = compare_products_present [OF tie_named_a_fields(1) oily_b_fields(1)
      tie_named_a_fields(2) oily_b_fields(2) tie_named_a_fields(3) oily_b_fields(3)
      tie_named_a_fields(4) oily_b_fields(4) scenario_prices(1) scenario_prices(2) c]
  show ?thesis
    by (simp add: r field_of_def winner_of_def bind_def getitem_def tie_named_versatility
        winner_by_cases marks_a_def get_default_def py_eq_iff)
qed

section \<open>Malformed and missing fields\<close>

text \<open>
  With the fields present and prices of at most 4300 digits, \<open>compare_products\<close> and
  \<open>generate_comparison_analysis\<close> return whatever the strings hold: a price or a
  concentration without digits becomes 0.
\<close>

lemma compare_products_total:
  assumes "a ''price'' = Some pa" and "b ''price'' = Some pb"
    and "a ''name'' = Some na" and "b ''name'' = Some nb"
    and "a ''skin_type'' = Some sa" and "b ''skin_type'' = Some sb"
    and "a ''key_ingredients'' = Some ia" and "b ''key_ingredients'' = Some ib"
    and "length (digits_of pa) \<le> int_max_str_digits"
    and "length (digits_of pb) \<le> int_max_str_digits"
  shows "\<exists>r. compare_products a b = Inr r"
proof -
  obtain xa xb where x: "extract_price pa = Inr xa" "extract_price pb = Inr xb"
    using extract_price_Inr [OF assms(9)] extract_price_Inr [OF assms(10)] by blast
  obtain ca cb where c: "concentrations a b = (ca, cb)"
    by (cases "concentrations a b")
  show ?thesis
    using compare_products_present [OF assms(1-8) x c] by blast
qed

lemma analysis_total:
  assumes "a ''price'' = Some pa" and "b ''price'' = Some pb"
    and "a ''name'' = Some na" and "b ''name'' = Some nb"
    and "a ''skin_type'' = Some sa" and "b ''skin_type'' = Some sb"
    and "a ''key_ingredients'' = Some ia" and "b ''key_ingredients'' = Some ib"
    and "a ''concentration'' = Some qa" and "b ''concentration'' = Some qb"
    and "a ''benefits'' = Some ba" and "b ''benefits'' = Some bb"
    and "length (digits_of pa) \<le> int_max_str_digits"
    and "length (digits_of pb) \<le> int_max_str_digits"
  shows "\<exists>r t. compare_products a b = Inr r \<and> generate_comparison_analysis a b r = Inr t"
proof -
  obtain xa xb where x: "extract_price pa = Inr xa" "extract_price pb = Inr xb"
    using extract_price_Inr [OF assms(13)] extract_price_Inr [OF assms(14)] by blast
  obtain ca cb where c: "concentrations a b = (ca, cb)"
    by (cases "concentrations a b")
  note r = compare_products_present [OF assms(1-8) x c]
  show ?thesis
    using assms(1-12)
    by (simp add: r generate_comparison_analysis_def getitem_def bind_def lower_val_def Let_def)
qed

lemma unpriced_a_fields:
  "unpriced_a ''price'' = Some (py ''N/A'')"
  "unpriced_a ''name'' = Some (py ''A'')"
  "unpriced_a ''skin_type'' = Some (py ''Oily'')"
  "unpriced_a ''key_ingredients'' = Some (py ''X,Y'')"
  "unpriced_a ''concentration'' = Some (py ''10% X'')"
  "unpriced_a ''benefits'' = Some (py ''Brightening'')"
  by (simp_all add: unpriced_a_def)

lemma unpriced_extract: "extract_price (py ''N/A'') = Inr 0"
  by code_simp

lemma unpriced_by_price: "recommend_by_price unpriced_a serum_b = Inl ValueError"
  by code_simp

lemma unpriced_by_skin_type:
  "recommend_for_skin_type unpriced_a serum_b (py ''oily'') = Inr (py ''A'')"
  "recommend_for_skin_type unpriced_a serum_b (py ''sensitive'') = Inr (py ''Both products suitable'')"
  by code_simp+

text \<open>
  Claim C2 fails on the code. All six fields of \<open>unpriced_a\<close> and of \<open>serum_b\<close> are
  present strings, and the price of \<open>unpriced_a\<close> is "N/A". \<open>compare_products\<close> absorbs the
  missing digits (price\_a = 0), but \<open>_recommend_by_price\<close> calls \<open>int('')\<close>, and the
  \<open>ValueError\<close> leaves \<open>_generate_recommendations\<close>.
\<close>

theorem budget_recommendation_raises:
  "field_of (compare_products unpriced_a serum_b) ''price_a'' = Inr (IntV 0)
   \<and> recommend_by_price unpriced_a serum_b = Inl ValueError
   \<and> generate_recommendations unpriced_a serum_b comparison = Inl ValueError"
proof -
  obtain ca cb where c: "concentrations unpriced_a serum_b = (ca, cb)"
    by (cases "concentrations unpriced_a serum_b")
  note r = compare_products_present [OF unpriced_a_fields(1) serum_b_fields(1)
      unpriced_a_fields(2) serum_b_fields(2) unpriced_a_fields(3) serum_b_fields(3)
      unpriced_a_fields(4) serum_b_fields(4) unpriced_extract scenario_prices(2) c]
  have "field_of (compare_products unpriced_a serum_b) ''price_a'' = Inr (IntV 0)"
    by (simp add: r field_of_def bind_def getitem_def)
  moreover have "generate_recommendations unpriced_a serum_b comparison = Inl ValueError"
    by (simp add: generate_recommendations_def unpriced_by_skin_type unpriced_by_price bind_def)
  ultimately show ?thesis
    using unpriced_by_price by blast
qed

subsection \<open>Absent fields\<close>

lemma compare_products_missing_raises:
  assumes "a ''price'' = None \<or> b ''price'' = None \<or> a ''name'' = None \<or> b ''name'' = None
    \<or> a ''skin_type'' = None \<or> b ''skin_type'' = None
    \<or> a ''key_ingredients'' = None \<or> b ''key_ingredients'' = None"
  shows "isl (compare_products a b)"
proof (cases "a ''price''")
  case None
  then show ?thesis by (simp add: compare_products_def getitem_def bind_def)
next
  case pa: (Some pa)
  show ?thesis
  proof (cases "extract_price pa")
    case (Inl e)
    with pa show ?thesis by (simp add: compare_products_def getitem_def bind_def)
  next
    case xa: (Inr xa)
    show ?thesis
    proof (cases "b ''price''")
      case None
      with pa xa show ?thesis by (simp add: compare_products_def getitem_def bind_def)
    next
      case pb: (Some pb)
      show ?thesis
      proof (cases "extract_price pb")
        case (Inl e)
        with pa xa pb show ?thesis by (simp add: compare_products_def getitem_def bind_def)
      next
        case xb: (Inr xb)
        obtain ca cb where c: "concentrations a b = (ca, cb)"
          by (cases "concentrations a b")
        show ?thesis
          using assms pa pb c
          by (auto simp add: compare_products_def getitem_def bind_def xa xb
              split: option.splits)
      qed
    qed
  qed
qed

lemma compare_products_missing_key:
  assumes "a ''price'' = None \<or> b ''price'' = None \<or> a ''name'' = None \<or> b ''name'' = None
    \<or> a ''skin_type'' = None \<or> b ''skin_type'' = None
    \<or> a ''key_ingredients'' = None \<or> b ''key_ingredients'' = None"
    and "\<forall>p. a ''price'' = Some p \<longrightarrow> length (digits_of p) \<le> int_max_str_digits"
    and "\<forall>p. b ''price'' = Some p \<longrightarrow> length (digits_of p) \<le> int_max_str_digits"
  shows "\<exists>k. compare_products a b = Inl (KeyError k) \<and> (a k = None \<or> b k = None)"
proof (cases "a ''price''")
  case None
  then show ?thesis by (auto simp add: compare_products_def getitem_def bind_def)
next
  case pa: (Some pa)
  then have xa: "extract_price pa = Inr (if digits_of pa = [] then 0
      else int_of_digits (digits_of pa))"
    using assms(2) by (simp add: extract_price_Inr)
  show ?thesis
  proof (cases "b ''price''")
    case None
    with pa xa show ?thesis
      by (auto simp add: compare_products_def getitem_def bind_def)
  next
    case pb: (Some pb)
    then have xb: "extract_price pb = Inr (if digits_of pb = [] then 0
        else int_of_digits (digits_of pb))"
      using assms(3) by (simp add: extract_price_Inr)
    obtain ca cb where c: "concentrations a b = (ca, cb)"
      by (cases "concentrations a b")
    show ?thesis
      using assms(1) pa pb c
      by (auto simp add: compare_products_def getitem_def bind_def xa xb
          split: option.splits)
  qed
qed

lemma long_price_nameless_compare:
  "compare_products long_price_nameless serum_b = Inl ValueError"
  by (simp add: compare_products_def getitem_def bind_def long_price_nameless_def
      long_price_raises)

lemma skin_type_error_is_missing_key:
  assumes "recommend_for_skin_type a b t = Inl e"
  shows "\<exists>k. e = KeyError k \<and> (a k = None \<or> b k = None)"
  using assms
  by (auto simp add: recommend_for_skin_type_def getitem_def bind_def Let_def
      split: option.splits if_splits)

lemma skin_type_missing:
  assumes "a ''skin_type'' = None \<or> b ''skin_type'' = None"
  shows "isl (recommend_for_skin_type a b t)"
  using assms
  by (auto simp add: recommend_for_skin_type_def getitem_def bind_def split: option.splits)

lemma by_price_missing_a:
  assumes "a ''price'' = None"
  shows "recommend_by_price a b = Inl (KeyError ''price'')"
  using assms by (simp add: recommend_by_price_def getitem_def bind_def)

lemma by_price_missing_b:
  assumes "b ''price'' = None"
  shows "isl (recommend_by_price a b)"
  using assms
  by (auto simp add: recommend_by_price_def getitem_def bind_def py_int_def split: option.splits)

lemma recommendations_raise:
  "recommend_for_skin_type a b (py ''oily'') = Inl e
     \<Longrightarrow> generate_recommendations a b c = Inl e"
  "recommend_for_skin_type a b (py ''oily'') = Inr oily
     \<Longrightarrow> recommend_for_skin_type a b (py ''sensitive'') = Inl e
     \<Longrightarrow> generate_recommendations a b c = Inl e"
  "recommend_for_skin_type a b (py ''oily'') = Inr oily
     \<Longrightarrow> recommend_for_skin_type a b (py ''sensitive'') = Inr sensitive
     \<Longrightarrow> recommend_by_price a b = Inl e
     \<Longrightarrow> generate_recommendations a b c = Inl e"
  by (simp_all add: generate_recommendations_def bind_def)

lemma recommendations_missing:
  assumes "a ''skin_type'' = None \<or> b ''skin_type'' = None \<or> a ''price'' = None"
  shows "\<exists>k. generate_recommendations a b c = Inl (KeyError k) \<and> (a k = None \<or> b k = None)"
proof (cases "recommend_for_skin_type a b (py ''oily'')")
  case (Inl e)
  then show ?thesis
    using skin_type_error_is_missing_key [OF Inl] recommendations_raise(1) [OF Inl, of c]
    by blast
next
  case oily: (Inr oily)
  show ?thesis
  proof (cases "recommend_for_skin_type a b (py ''sensitive'')")
    case (Inl e)
    then show ?thesis
      using skin_type_error_is_missing_key [OF Inl] recommendations_raise(2) [OF oily Inl, of c]
      by blast
  next
    case sensitive: (Inr sensitive)
    have "\<not> isl (recommend_for_skin_type a b (py ''oily''))"
      using oily by simp
    then have "a ''price'' = None"
      using assms skin_type_missing [of a b "py ''oily''"] by blast
    then show ?thesis
      using recommendations_raise(3) [OF oily sensitive by_price_missing_a [of a b], of c] by blast
  qed
qed

lemma recommendations_missing_price_b:
  assumes "b ''price'' = None"
  shows "isl (generate_recommendations a b c)"
proof -
  obtain e where e: "recommend_by_price a b = Inl e"
    using assms by_price_missing_b [of b a] by (cases "recommend_by_price a b") simp_all
  show ?thesis
  proof (cases "recommend_for_skin_type a b (py ''oily'')")
    case (Inl e1)
    then show ?thesis by (simp add: recommendations_raise(1))
  next
    case oily: (Inr oily)
    show ?thesis
    proof (cases "recommend_for_skin_type a b (py ''sensitive'')")
      case (Inl e2)
      then show ?thesis by (simp add: recommendations_raise(2) [OF oily])
    next
      case (Inr sensitive)
      then show ?thesis by (simp add: recommendations_raise(3) [OF oily Inr e])
    qed
  qed
qed

lemma concentration_missing:
  assumes "a ''concentration'' = None \<or> b ''concentration'' = None"
  shows "concentrations a b = (0, 0)"
    and "recommend_by_effectiveness a b = py ''Both equally effective''"
  using assms
  by (auto simp add: concentrations_def recommend_by_effectiveness_def concentration_def
      getitem_def bind_def split: sum.splits option.splits)

text \<open>
  Claim C3, as amended. The engine does not validate its input. \<open>compare_products\<close>
  raises whenever name, price, skin\_type or key\_ingredients is absent from either
  product, and the error is the \<open>KeyError\<close> of an absent field provided that every price
  that is present holds at most 4300 digits. The recommendations raise the \<open>KeyError\<close> of
  an absent field whenever skin\_type is absent from either product or price is absent
  from product A, and raise an error when price is absent from product B. An absent
  concentration is not propagated: both concentrations of the comparison become 0, and
  the recommendation for maximum results becomes "Both equally effective".
\<close>

theorem missing_field_propagation:
  "(a ''price'' = None \<or> b ''price'' = None \<or> a ''name'' = None \<or> b ''name'' = None
      \<or> a ''skin_type'' = None \<or> b ''skin_type'' = None
      \<or> a ''key_ingredients'' = None \<or> b ''key_ingredients'' = None
     \<longrightarrow> isl (compare_products a b)
        \<and> ((\<forall>p. a ''price'' = Some p \<longrightarrow> length (digits_of p) \<le> int_max_str_digits)
            \<and> (\<forall>p. b ''price'' = Some p \<longrightarrow> length (digits_of p) \<le> int_max_str_digits)
           \<longrightarrow> (\<exists>k. compare_products a b = Inl (KeyError k)
                    \<and> (a k = None \<or> b k = None))))
   \<and> (a ''skin_type'' = None \<or> b ''skin_type'' = None \<or> a ''price'' = None
     \<longrightarrow> (\<exists>k. generate_recommendations a b c = Inl (KeyError k)
              \<and> (a k = None \<or> b k = None)))
   \<and> (b ''price'' = None \<longrightarrow> isl (generate_recommendations a b c))
   \<and> (a ''concentration'' = None \<or> b ''concentration'' = None
     \<longrightarrow> concentrations a b = (0, 0)
         \<and> recommend_by_effectiveness a b = py ''Both equally effective'')"
proof (intro conjI impI)
  assume absent: "a ''price'' = None \<or> b ''price'' = None \<or> a ''name'' = None
      \<or> b ''name'' = None \<or> a ''skin_type'' = None \<or> b ''skin_type'' = None
      \<or> a ''key_ingredients'' = None \<or> b ''key_ingredients'' = None"
  show "isl (compare_products a b)"
    using absent by (rule compare_products_missing_raises)
  assume "(\<forall>p. a ''price'' = Some p \<longrightarrow> length (digits_of p) \<le> int_max_str_digits)
      \<and> (\<forall>p. b ''price'' = Some p \<longrightarrow> length (digits_of p) \<le> int_max_str_digits)"
  then show "\<exists>k. compare_products a b = Inl (KeyError k) \<and> (a k = None \<or> b k = None)"
    using compare_products_missing_key [OF absent] by blast
next
  assume "a ''skin_type'' = None \<or> b ''skin_type'' = None \<or> a ''price'' = None"
  then show "\<exists>k. generate_recommendations a b c = Inl (KeyError k)
      \<and> (a k = None \<or> b k = None)"
    by (rule recommendations_missing)
next
  assume "b ''price'' = None"
  then show "isl (generate_recommendations a b c)"
    by (rule recommendations_missing_price_b)
next
  assume h: "a ''concentration'' = None \<or> b ''concentration'' = None"
  show "concentrations a b = (0, 0)"
    using h by (rule concentration_missing(1))
  show "recommend_by_effectiveness a b = py ''Both equally effective''"
    using h by (rule concentration_missing(2))
qed

lemma absent_fields:
  "no_price_a ''price'' = None"
  "no_concentration_a ''concentration'' = None"
  "long_price_nameless ''name'' = None"
  by (simp_all add: no_price_a_def no_concentration_a_def long_price_nameless_def)

lemma no_concentration_a_fields:
  "no_concentration_a ''price'' = Some (rupee # py ''500'')"
  "no_concentration_a ''name'' = Some (py ''A'')"
  "no_concentration_a ''skin_type'' = Some (py ''Oily'')"
  "no_concentration_a ''key_ingredients'' = Some (py ''X,Y'')"
  by (simp_all add: no_concentration_a_def)

lemma no_price_a_key_error:
  "compare_products no_price_a serum_b = Inl (KeyError ''price'')"
  by (simp add: compare_products_def getitem_def bind_def absent_fields(1))

theorem missing_field_propagation_witness:
  "isl (compare_products no_price_a serum_b)
   \<and> compare_products no_price_a serum_b = Inl (KeyError ''price'')
   \<and> isl (generate_recommendations no_price_a serum_b split_verdict)
   \<and> isl (generate_recommendations serum_a no_price_a split_verdict)
   \<and> concentrations no_concentration_a serum_b = (0, 0)
   \<and> recommend_by_effectiveness no_concentration_a serum_b = py ''Both equally effective''"
proof -
  have short: "\<forall>p. no_price_a ''price'' = Some p
      \<longrightarrow> length (digits_of p) \<le> int_max_str_digits"
    "\<forall>p. serum_b ''price'' = Some p \<longrightarrow> length (digits_of p) \<le> int_max_str_digits"
    using short_prices(2) by (simp_all add: absent_fields(1) serum_b_fields(1))
  have "isl (compare_products no_price_a serum_b)"
    and "\<exists>k. compare_products no_price_a serum_b = Inl (KeyError k)
      \<and> (no_price_a k = None \<or> serum_b k = None)"
    and "isl (generate_recommendations no_price_a serum_b split_verdict)"
    using missing_field_propagation [of no_price_a serum_b split_verdict]
      absent_fields(1) short by auto
  moreover have "isl (generate_recommendations serum_a no_price_a split_verdict)"
    using missing_field_propagation [of serum_a no_price_a split_verdict]
      absent_fields(1) by blast
  moreover have "concentrations no_concentration_a serum_b = (0, 0)"
    and "recommend_by_effectiveness no_concentration_a serum_b = py ''Both equally effective''"
    using missing_field_propagation [of no_concentration_a serum_b split_verdict]
      absent_fields(2) by blast+
  ultimately show ?thesis
    using no_price_a_key_error by blast
qed

text \<open>
  Claim C3 as stated fails for the field concentration: it is absent from
  \<open>no_concentration_a\<close>, and \<open>compare_products\<close> returns a comparison whose
  concentration\_a is the default 0, while the recommendation for maximum results is
  the default text. It also fails for the absent name of \<open>long_price_nameless\<close>: the
  price of 4301 digits makes \<open>compare_products\<close> raise \<open>ValueError\<close> before the name is
  looked up.
\<close>

theorem absent_concentration_counterexample:
  "no_concentration_a ''concentration'' = None
   \<and> field_of (compare_products no_concentration_a serum_b) ''concentration_a'' = Inr (IntV 0)
   \<and> recommend_by_effectiveness no_concentration_a serum_b = py ''Both equally effective''
   \<and> long_price_nameless ''name'' = None
   \<and> compare_products long_price_nameless serum_b = Inl ValueError"
proof -
  have c: "concentrations no_concentration_a serum_b = (0, 0)"
    using absent_fields(2) by (simp add: concentration_missing(1))
  note r = compare_products_present [OF no_concentration_a_fields(1) serum_b_fields(1)
      no_concentration_a_fields(2) serum_b_fields(2) no_concentration_a_fields(3)
      serum_b_fields(3) no_concentration_a_fields(4) serum_b_fields(4)
      scenario_prices(1) scenario_prices(2) c]
  have "field_of (compare_products no_concentration_a serum_b) ''concentration_a''
      = Inr (IntV 0)"
    by (simp add: r field_of_def bind_def getitem_def)
  then show ?thesis
    using absent_fields(2,3) concentration_missing(2) [of no_concentration_a serum_b]
      long_price_nameless_compare
    by blast
qed

end
